theory Spec2Isabelle
  imports Complex_Main "HOL-Library.Char_ord" "HOL-Library.List_Lexorder"
begin

section \<open>Constants\<close>

text \<open>
  The constants of \<^verbatim>\<open>const.py\<close> that \<^verbatim>\<open>climate.py\<close> reads, and the three
  constants it takes from the host platform (\<^verbatim>\<open>homeassistant.const\<close>).
\<close>

definition SCHEDULE_WEEKDAY :: string where "SCHEDULE_WEEKDAY = ''weekday''"
definition SCHEDULE_WEEKEND :: string where "SCHEDULE_WEEKEND = ''weekend''"

definition PRESET_HOME :: string where "PRESET_HOME = ''home''"
definition PRESET_AWAY :: string where "PRESET_AWAY = ''away''"
definition PRESET_SLEEP :: string where "PRESET_SLEEP = ''sleep''"
definition PRESET_VACATION :: string where "PRESET_VACATION = ''vacation''"

definition ATTR_TEMPERATURE :: string where "ATTR_TEMPERATURE = ''temperature''"
definition STATE_UNAVAILABLE :: string where "STATE_UNAVAILABLE = ''unavailable''"
definition STATE_UNKNOWN :: string where "STATE_UNKNOWN = ''unknown''"

section \<open>Python values, exceptions, clock\<close>

text \<open>
  Temperatures are dynamically typed in the source: a preset's temperature, a service
  call's \<^verbatim>\<open>temperature\<close> argument and a restored attribute may each be a number,
  \<^verbatim>\<open>None\<close> or a string. Numbers (Python \<^verbatim>\<open>int\<close> and \<^verbatim>\<open>float\<close>) are
  real numbers here; rounding, infinities and NaN are outside the model. Names (preset
  names, time strings, dictionary keys) are strings.
\<close>

datatype pyval = PyNone | PyNum real | PyStr string

text \<open>Python truthiness, as tested by \<^verbatim>\<open>if x\<close>.\<close>

fun truthy :: "pyval \<Rightarrow> bool" where
  "truthy PyNone = False"
| "truthy (PyNum r) = (r \<noteq> 0)"
| "truthy (PyStr s) = (s \<noteq> [])"

datatype error = ValueError | TypeError | OverflowError

text \<open>
  \<^verbatim>\<open>float(x)\<close>: \<^verbatim>\<open>None\<close> raises TypeError; a string is parsed and raises
  ValueError when it is no number (the string grammar of \<^verbatim>\<open>float\<close> is a parameter
  \<open>str_float\<close>); a number converts, unless it is an integer too large for a double,
  which raises OverflowError. The conversion of an integer rounds to the nearest
  double, ties to even, so the first integer that overflows lies halfway between the
  largest double, \<open>2 ^ 1024 - 2 ^ 971\<close>, and \<open>2 ^ 1024\<close>. No Python float is that
  large, so a number at or beyond this bound is an integer.
\<close>

definition float_overflow_bound :: real where
  "float_overflow_bound = 2 ^ 1024 - 2 ^ 970"

fun py_float :: "(string \<Rightarrow> real option) \<Rightarrow> pyval \<Rightarrow> error + real" where
  "py_float str_float PyNone = Inl TypeError"
| "py_float str_float (PyNum r) =
     (if float_overflow_bound \<le> \<bar>r\<bar> then Inl OverflowError else Inr r)"
| "py_float str_float (PyStr s) =
     (case str_float s of None \<Rightarrow> Inl ValueError | Some r \<Rightarrow> Inr r)"

text \<open>
  A naive \<^verbatim>\<open>datetime\<close> is the number of microseconds since 0001-01-01 00:00:00, the
  first instant Python can represent; that day is a Monday (\<^verbatim>\<open>weekday() == 0\<close>). A
  \<^verbatim>\<open>time\<close> of day is the number of microseconds since midnight; Python compares
  times of day in that order.
\<close>

type_synonym datetime = nat
type_synonym time_of_day = nat

definition us_per_minute :: nat where "us_per_minute = 60000000"
definition us_per_day :: nat where "us_per_day = 1440 * us_per_minute"

definition weekday :: "datetime \<Rightarrow> nat" where
  "weekday d = (d div us_per_day) mod 7"

definition time_of :: "datetime \<Rightarrow> time_of_day" where
  "time_of d = d mod us_per_day"

definition mk_time :: "nat \<Rightarrow> nat \<Rightarrow> time_of_day" where
  "mk_time h m = (h * 60 + m) * us_per_minute"

section \<open>Parsing a slot time: \<^verbatim>\<open>datetime.strptime(s, "%H:%M").time()\<close>\<close>

text \<open>
  The standard library compiles the format \<^verbatim>\<open>%H:%M\<close> to the regular expression
  \<^verbatim>\<open>(?P<H>2[0-3]|[0-1]\d|\d):(?P<M>[0-5]\d|\d)\<close>, matches it at the start of the
  string and raises ValueError when it does not match or when text remains after the
  match. Each alternation is tried in the order written. A two-digit alternative that
  matches is never abandoned for the one-digit one, because the character after the hour
  must be a colon and nothing may follow the minute.
\<close>

definition is_digit :: "char \<Rightarrow> bool" where
  "is_digit c \<longleftrightarrow> c \<in> set ''0123456789''"

definition digit_val :: "char \<Rightarrow> nat" where
  "digit_val c = of_char c - 48"

fun regex_H :: "string \<Rightarrow> (nat \<times> string) option" where
  "regex_H (a # b # r) =
     (if a = CHR ''2'' \<and> b \<in> set ''0123'' then Some (20 + digit_val b, r)
      else if a \<in> set ''01'' \<and> is_digit b then Some (10 * digit_val a + digit_val b, r)
      else if is_digit a then Some (digit_val a, b # r)
      else None)"
| "regex_H [a] = (if is_digit a then Some (digit_val a, []) else None)"
| "regex_H [] = None"

fun regex_M :: "string \<Rightarrow> (nat \<times> string) option" where
  "regex_M (a # b # r) =
     (if a \<in> set ''012345'' \<and> is_digit b then Some (10 * digit_val a + digit_val b, r)
      else if is_digit a then Some (digit_val a, b # r)
      else None)"
| "regex_M [a] = (if is_digit a then Some (digit_val a, []) else None)"
| "regex_M [] = None"

definition strptime_HM :: "string \<Rightarrow> error + time_of_day" where
  "strptime_HM s =
     (case regex_H s of
        None \<Rightarrow> Inl ValueError
      | Some (h, r) \<Rightarrow>
          (case r of
             [] \<Rightarrow> Inl ValueError
           | c # r' \<Rightarrow>
               if c \<noteq> CHR '':'' then Inl ValueError
               else (case regex_M r' of
                       None \<Rightarrow> Inl ValueError
                     | Some (m, r'') \<Rightarrow>
                         if r'' \<noteq> [] then Inl ValueError else Inr (mk_time h m))))"

section \<open>Schedule table and the three scans of the day's slots\<close>

text \<open>
  A slot is a dictionary read through \<^verbatim>\<open>slot.get("time", "00:00")\<close> and
  \<^verbatim>\<open>slot.get("preset")\<close>: either key may be absent.
\<close>

record slot =
  slot_time :: "string option"
  slot_preset :: "string option"

definition get_time :: "slot \<Rightarrow> string" where
  "get_time x = (case slot_time x of None \<Rightarrow> ''00:00'' | Some t \<Rightarrow> t)"

text \<open>
  \<^verbatim>\<open>sorted(day_schedule, key=lambda x: x.get("time", "00:00"))\<close>: a stable sort whose
  keys are the time strings, compared as Python compares strings (by code point,
  a proper prefix first).
\<close>

definition sorted_slots :: "slot list \<Rightarrow> slot list" where
  "sorted_slots day_schedule = sort_key get_time day_schedule"

type_synonym schedule_table = "(string \<times> slot list) list"

definition schedule_type :: "datetime \<Rightarrow> string" where
  "schedule_type now = (if weekday now < 5 then SCHEDULE_WEEKDAY else SCHEDULE_WEEKEND)"

definition get_day_schedule :: "schedule_table \<Rightarrow> datetime \<Rightarrow> slot list" where
  "get_day_schedule scheds now =
     (case map_of scheds (schedule_type now) of None \<Rightarrow> [] | Some l \<Rightarrow> l)"

text \<open>
  The loop of \<^verbatim>\<open>_async_check_schedule\<close> (``find current time slot''): the third
  argument is the variable \<^verbatim>\<open>active_preset\<close>; \<^verbatim>\<open>break\<close> returns it.
\<close>

fun find_current_slot ::
  "time_of_day \<Rightarrow> slot list \<Rightarrow> string option \<Rightarrow> error + string option" where
  "find_current_slot current_time [] active_preset = Inr active_preset"
| "find_current_slot current_time (x # rest) active_preset =
     (case strptime_HM (get_time x) of
        Inl e \<Rightarrow> Inl e
      | Inr st \<Rightarrow>
          if current_time \<ge> st then find_current_slot current_time rest (slot_preset x)
          else Inr active_preset)"

definition active_preset_at :: "slot list \<Rightarrow> time_of_day \<Rightarrow> error + string option" where
  "active_preset_at day_schedule current_time =
     find_current_slot current_time (sorted_slots day_schedule) None"

text \<open>The loop of \<^verbatim>\<open>_get_next_schedule\<close>.\<close>

fun next_schedule_loop :: "time_of_day \<Rightarrow> slot list \<Rightarrow> error + string option" where
  "next_schedule_loop current_time [] = Inr None"
| "next_schedule_loop current_time (x # rest) =
     (case strptime_HM (get_time x) of
        Inl e \<Rightarrow> Inl e
      | Inr st \<Rightarrow>
          if current_time < st then Inr (slot_time x)
          else next_schedule_loop current_time rest)"

definition get_next_schedule :: "schedule_table \<Rightarrow> datetime \<Rightarrow> error + string option" where
  "get_next_schedule scheds now =
     next_schedule_loop (time_of now) (sorted_slots (get_day_schedule scheds now))"

text \<open>
  The Preset Catalog: a dictionary from preset name to a dictionary of attributes.
  \<^verbatim>\<open>self._presets.get(preset, {}).get("temperature")\<close> is \<^verbatim>\<open>None\<close> when either
  lookup misses; the slot's preset may itself be \<^verbatim>\<open>None\<close>, which is no key of the
  catalog.
\<close>

type_synonym preset_catalog = "(string \<times> (string \<times> pyval) list) list"

definition preset_entry :: "preset_catalog \<Rightarrow> string option \<Rightarrow> (string \<times> pyval) list" where
  "preset_entry cat name =
     (case name of
        None \<Rightarrow> []
      | Some n \<Rightarrow> (case map_of cat n of None \<Rightarrow> [] | Some e \<Rightarrow> e))"

definition dict_get :: "(string \<times> pyval) list \<Rightarrow> string \<Rightarrow> pyval \<Rightarrow> pyval" where
  "dict_get d k dflt = (case map_of d k of None \<Rightarrow> dflt | Some v \<Rightarrow> v)"

text \<open>The loop of \<^verbatim>\<open>_get_next_temperature\<close>.\<close>

fun next_temperature_loop ::
  "preset_catalog \<Rightarrow> time_of_day \<Rightarrow> slot list \<Rightarrow> error + pyval" where
  "next_temperature_loop cat current_time [] = Inr PyNone"
| "next_temperature_loop cat current_time (x # rest) =
     (case strptime_HM (get_time x) of
        Inl e \<Rightarrow> Inl e
      | Inr st \<Rightarrow>
          if current_time < st
          then Inr (dict_get (preset_entry cat (slot_preset x)) ''temperature'' PyNone)
          else next_temperature_loop cat current_time rest)"

definition get_next_temperature ::
  "schedule_table \<Rightarrow> preset_catalog \<Rightarrow> datetime \<Rightarrow> error + pyval" where
  "get_next_temperature scheds cat now =
     next_temperature_loop cat (time_of now) (sorted_slots (get_day_schedule scheds now))"

section \<open>The entity and its operations\<close>

datatype HVACMode = OFF | HEAT | COOL | HEAT_COOL | AUTO | DRY | FAN_ONLY

text \<open>
  A request handed to \<^verbatim>\<open>hass.services.async_call\<close>: the service, the target entity
  id and the value sent.
\<close>

datatype service_call =
  SetTemperature string pyval
| SetHvacMode string HVACMode

text \<open>
  The fields of \<^verbatim>\<open>ClimateSchedulerEntity\<close> that the operations read or write, and
  two logs of its effects on the host: the service calls it dispatched and the number
  of \<^verbatim>\<open>async_write_ha_state()\<close> calls.
\<close>

record entity =
  climate_entity :: "string option"
  schedules :: schedule_table
  presets :: preset_catalog
  target_temperature :: pyval
  hvac_mode :: "HVACMode option"
  preset_mode :: string
  last_preset_change :: "datetime option"
  service_calls :: "service_call list"
  state_writes :: nat

text \<open>The class attribute \<^verbatim>\<open>_attr_preset_modes\<close>.\<close>

definition attr_preset_modes :: "string list" where
  "attr_preset_modes = [PRESET_HOME, PRESET_AWAY, PRESET_SLEEP, PRESET_VACATION]"

text \<open>
  \<^verbatim>\<open>__init__\<close>: the schedule table and the catalog come from the entry's options,
  then from its data, then default to the empty dictionary.
\<close>

record config_entry =
  data_climate_entity :: "string option"
  data_schedules :: "schedule_table option"
  data_presets :: "preset_catalog option"
  options_schedules :: "schedule_table option"
  options_presets :: "preset_catalog option"

definition init_entity :: "config_entry \<Rightarrow> entity" where
  "init_entity entry =
     \<lparr> climate_entity = data_climate_entity entry,
       schedules =
         (case options_schedules entry of
            Some t \<Rightarrow> t
          | None \<Rightarrow> (case data_schedules entry of Some t \<Rightarrow> t | None \<Rightarrow> [])),
       presets =
         (case options_presets entry of
            Some c \<Rightarrow> c
          | None \<Rightarrow> (case data_presets entry of Some c \<Rightarrow> c | None \<Rightarrow> [])),
       target_temperature = PyNone,
       hvac_mode = Some HEAT_COOL,
       preset_mode = PRESET_HOME,
       last_preset_change = None,
       service_calls = [],
       state_writes = 0 \<rparr>"

text \<open>
  The host's service registry is a parameter \<open>hass\<close>: \<open>hass c\<close> holds when dispatching
  the call \<open>c\<close> raises. \<^verbatim>\<open>_async_apply_to_climate_entity\<close> catches every exception,
  so a call that raises only skips the calls after it.
\<close>

type_synonym hass = "service_call \<Rightarrow> bool"

definition async_call :: "hass \<Rightarrow> service_call \<Rightarrow> entity \<Rightarrow> entity \<times> bool" where
  "async_call hass c s = (s\<lparr>service_calls := service_calls s @ [c]\<rparr>, hass c)"

definition async_apply_to_climate_entity :: "hass \<Rightarrow> entity \<Rightarrow> entity" where
  "async_apply_to_climate_entity hass s =
     (case climate_entity s of
        None \<Rightarrow> s
      | Some eid \<Rightarrow>
          if eid = [] then s
          else
            (let (s1, raised) =
                   (if target_temperature s \<noteq> PyNone
                    then async_call hass (SetTemperature eid (target_temperature s)) s
                    else (s, False))
             in if raised then s1
                else (case hvac_mode s1 of
                        None \<Rightarrow> s1
                      | Some m \<Rightarrow> fst (async_call hass (SetHvacMode eid m) s1))))"

definition async_write_ha_state :: "entity \<Rightarrow> entity" where
  "async_write_ha_state s = s\<lparr>state_writes := Suc (state_writes s)\<rparr>"

text \<open>\<^verbatim>\<open>async_set_temperature(**kwargs)\<close>.\<close>

definition async_set_temperature :: "hass \<Rightarrow> (string \<times> pyval) list \<Rightarrow> entity \<Rightarrow> entity" where
  "async_set_temperature hass kwargs s =
     (let temperature = dict_get kwargs ATTR_TEMPERATURE PyNone
      in if truthy temperature
         then async_write_ha_state
                (async_apply_to_climate_entity hass (s\<lparr>target_temperature := temperature\<rparr>))
         else s)"

definition async_set_hvac_mode :: "hass \<Rightarrow> HVACMode \<Rightarrow> entity \<Rightarrow> entity" where
  "async_set_hvac_mode hass m s =
     async_write_ha_state (async_apply_to_climate_entity hass (s\<lparr>hvac_mode := Some m\<rparr>))"

text \<open>
  \<^verbatim>\<open>async_set_preset_mode(preset_mode)\<close>; \<open>now\<close> is the clock reading of
  \<^verbatim>\<open>datetime.now()\<close>.
\<close>

definition async_set_preset_mode :: "hass \<Rightarrow> entity \<Rightarrow> string \<Rightarrow> datetime \<Rightarrow> entity" where
  "async_set_preset_mode hass s p now =
     (if p \<notin> set attr_preset_modes then s
      else
        (let s1 = s\<lparr>preset_mode := p, last_preset_change := Some now\<rparr>;
             preset_temp = dict_get (preset_entry (presets s1) (Some p)) ''temperature'' (PyNum 21);
             s2 = s1\<lparr>target_temperature := preset_temp\<rparr>
         in async_write_ha_state (async_apply_to_climate_entity hass s2)))"

text \<open>
  \<^verbatim>\<open>(datetime.now() - self._last_preset_change).total_seconds() / 60\<close>, computed
  exactly.
\<close>

definition minutes_since :: "datetime \<Rightarrow> datetime \<Rightarrow> real" where
  "minutes_since now changed = (real_of_int (int now - int changed) / 1000000) / 60"

text \<open>
  \<^verbatim>\<open>_async_check_schedule\<close>, the periodic tick. The callback ignores its argument
  and reads the clock itself; the model takes one clock reading \<open>now\<close> for the whole
  call. A ValueError of the slot parser leaves the call before any field is written.
\<close>

definition async_check_schedule :: "hass \<Rightarrow> entity \<Rightarrow> datetime \<Rightarrow> error + entity" where
  "async_check_schedule hass s now =
     (if schedules s = [] then Inr s
      else
        (let day_schedule = get_day_schedule (schedules s) now
         in if day_schedule = [] then Inr s
            else
              (case active_preset_at day_schedule (time_of now) of
                 Inl e \<Rightarrow> Inl e
               | Inr None \<Rightarrow> Inr s
               | Inr (Some active_preset) \<Rightarrow>
                   if active_preset \<noteq> [] \<and> active_preset \<noteq> preset_mode s
                   then
                     (case last_preset_change s of
                        None \<Rightarrow> Inr (async_set_preset_mode hass s active_preset now)
                      | Some changed \<Rightarrow>
                          if minutes_since now changed < 30 then Inr s
                          else Inr (async_set_preset_mode hass s active_preset now))
                   else Inr s)))"

text \<open>
  The state the entity is left in by a call: an exception leaves it as it was.
\<close>

definition state_after :: "entity \<Rightarrow> error + entity \<Rightarrow> entity" where
  "state_after s r = (case r of Inl e \<Rightarrow> s | Inr s' \<Rightarrow> s')"

section \<open>Restoring the last state\<close>

text \<open>
  What \<^verbatim>\<open>async_get_last_state()\<close> returns: the stored state string and the two
  attributes the entity reads, each possibly absent.
\<close>

record stored_state =
  state :: "string option"
  attr_temperature :: "pyval option"
  attr_preset_mode :: "string option"

text \<open>
  The restore block of \<^verbatim>\<open>async_added_to_hass\<close>. Both assignments are inside one
  \<^verbatim>\<open>try\<close>; when \<^verbatim>\<open>float\<close> raises ValueError or TypeError, the
  \<^verbatim>\<open>except (ValueError, TypeError): pass\<close> is reached before either field is
  written. Any other exception of \<^verbatim>\<open>float\<close> is not caught and leaves the block.
\<close>

definition restore_state ::
  "(string \<Rightarrow> real option) \<Rightarrow> stored_state option \<Rightarrow> entity \<Rightarrow> error + entity" where
  "restore_state str_float last_state s =
     (case last_state of
        None \<Rightarrow> Inr s
      | Some ls \<Rightarrow>
          if state ls \<notin> {Some STATE_UNAVAILABLE, Some STATE_UNKNOWN, None}
          then
            (case py_float str_float
                    (case attr_temperature ls of None \<Rightarrow> PyNum 21 | Some v \<Rightarrow> v) of
               Inl e \<Rightarrow> if e \<in> {ValueError, TypeError} then Inr s else Inl e
             | Inr t \<Rightarrow>
                 Inr (s\<lparr>target_temperature := PyNum t,
                        preset_mode :=
                          (case attr_preset_mode ls of
                             None \<Rightarrow> PRESET_HOME
                           | Some p \<Rightarrow> p)\<rparr>))
          else Inr s)"

text \<open>
  \<^verbatim>\<open>async_added_to_hass\<close>: restore, then the initial schedule check (the
  registration of the five-minute timer has no effect on the fields). An exception
  that leaves the restore block leaves the whole call.
\<close>

definition async_added_to_hass ::
  "(string \<Rightarrow> real option) \<Rightarrow> hass \<Rightarrow> stored_state option \<Rightarrow> entity \<Rightarrow> datetime
     \<Rightarrow> error + entity" where
  "async_added_to_hass str_float hass last_state s now =
     (case restore_state str_float last_state s of
        Inl e \<Rightarrow> Inl e
      | Inr s1 \<Rightarrow> async_check_schedule hass s1 now)"

section \<open>Auxiliary notions for the resolver's properties\<close>

text \<open>
  The slot at which the scans of \<^verbatim>\<open>_get_next_schedule\<close> and
  \<^verbatim>\<open>_get_next_temperature\<close> stop: both scan the same sorted list with the same
  test and differ only in what they return of that slot.
\<close>

fun next_slot_loop :: "time_of_day \<Rightarrow> slot list \<Rightarrow> error + slot option" where
  "next_slot_loop current_time [] = Inr None"
| "next_slot_loop current_time (x # rest) =
     (case strptime_HM (get_time x) of
        Inl e \<Rightarrow> Inl e
      | Inr st \<Rightarrow>
          if current_time < st then Inr (Some x)
          else next_slot_loop current_time rest)"

definition get_next_slot :: "schedule_table \<Rightarrow> datetime \<Rightarrow> error + slot option" where
  "get_next_slot scheds now =
     next_slot_loop (time_of now) (sorted_slots (get_day_schedule scheds now))"

text \<open>
  The data model's invariant on a slot time: five characters \<^verbatim>\<open>HH:MM\<close>, two digits
  each, a valid 24-hour clock value.
\<close>

fun valid_HHMM :: "string \<Rightarrow> bool" where
  "valid_HHMM [a, b, c, d, e] =
     (is_digit a \<and> is_digit b \<and> c = CHR '':'' \<and> is_digit d \<and> is_digit e
      \<and> 10 * digit_val a + digit_val b < 24 \<and> 10 * digit_val d + digit_val e < 60)"
| "valid_HHMM _ = False"

text \<open>The time of day of a slot, where its time string parses.\<close>

definition slot_tod :: "slot \<Rightarrow> time_of_day" where
  "slot_tod x = (case strptime_HM (get_time x) of Inl e \<Rightarrow> 0 | Inr t \<Rightarrow> t)"

text \<open>A catalog without ``away''.\<close>

definition presets_without_away :: preset_catalog where
  "presets_without_away =
     [(PRESET_HOME, [(''temperature'', PyNum 21)]),
      (PRESET_SLEEP, [(''temperature'', PyNum 19)])]"

section \<open>Concrete configurations\<close>

text \<open>
  \<^verbatim>\<open>DEFAULT_SCHEDULES\<close> and \<^verbatim>\<open>DEFAULT_PRESETS\<close> of \<^verbatim>\<open>config_flow.py\<close>, the
  options every new config entry is created with, and the entity built from them.
\<close>

definition DEFAULT_SCHEDULES :: schedule_table where
  "DEFAULT_SCHEDULES =
     [(''weekday'',
        [\<lparr>slot_time = Some ''06:00'', slot_preset = Some PRESET_HOME\<rparr>,
         \<lparr>slot_time = Some ''08:00'', slot_preset = Some PRESET_AWAY\<rparr>,
         \<lparr>slot_time = Some ''17:00'', slot_preset = Some PRESET_HOME\<rparr>,
         \<lparr>slot_time = Some ''22:00'', slot_preset = Some PRESET_SLEEP\<rparr>]),
      (''weekend'',
        [\<lparr>slot_time = Some ''08:00'', slot_preset = Some PRESET_HOME\<rparr>,
         \<lparr>slot_time = Some ''23:00'', slot_preset = Some PRESET_SLEEP\<rparr>])]"

definition DEFAULT_PRESETS :: preset_catalog where
  "DEFAULT_PRESETS =
     [(PRESET_HOME, [(''temperature'', PyNum 21)]),
      (PRESET_AWAY, [(''temperature'', PyNum 18)]),
      (PRESET_SLEEP, [(''temperature'', PyNum 19)]),
      (PRESET_VACATION, [(''temperature'', PyNum 16)])]"

definition default_entry :: config_entry where
  "default_entry =
     \<lparr> data_climate_entity = Some ''climate.living_room'',
       data_schedules = None, data_presets = None,
       options_schedules = Some DEFAULT_SCHEDULES,
       options_presets = Some DEFAULT_PRESETS \<rparr>"

definition default_entity :: entity where
  "default_entity = init_entity default_entry"

text \<open>
  An entry that carries neither a schedule table nor a catalog: \<^verbatim>\<open>__init__\<close> falls
  back to two empty dictionaries.
\<close>

definition bare_entry :: config_entry where
  "bare_entry =
     \<lparr> data_climate_entity = Some ''climate.living_room'',
       data_schedules = None, data_presets = None,
       options_schedules = None, options_presets = None \<rparr>"

text \<open>A host on which no dispatch raises.\<close>

definition hass_ok :: hass where
  "hass_ok c = False"

text \<open>The clock reading on day \<open>day\<close> (day 0 is a Monday) at \<open>h:m\<close>.\<close>

definition at_clock :: "nat \<Rightarrow> nat \<Rightarrow> nat \<Rightarrow> datetime" where
  "at_clock day h m = day * us_per_day + mk_time h m"

text \<open>The bare entity after the user has set 19 degrees.\<close>

definition bare_entity_19 :: entity where
  "bare_entity_19 =
     async_set_temperature hass_ok [(ATTR_TEMPERATURE, PyNum 19)] (init_entity bare_entry)"

text \<open>The default entity after its tick of Tuesday 08:00.\<close>

definition default_entity_tue_0800 :: entity where
  "default_entity_tue_0800 =
     async_set_preset_mode hass_ok default_entity PRESET_AWAY (at_clock 1 8 0)"

text \<open>The default entity after the user has chosen ``vacation'' on Tuesday at 10:00.\<close>

definition default_entity_vacation :: entity where
  "default_entity_vacation =
     async_set_preset_mode hass_ok default_entity PRESET_VACATION (at_clock 1 10 0)"

text \<open>
  The default entity after the user has chosen ``vacation'' on Tuesday at 07:01, and
  that entity after a switch to ``home'' at 07:35.
\<close>

definition default_entity_vacation_0701 :: entity where
  "default_entity_vacation_0701 =
     async_set_preset_mode hass_ok default_entity PRESET_VACATION (at_clock 1 7 1)"

definition default_entity_home_0735 :: entity where
  "default_entity_home_0735 =
     async_set_preset_mode hass_ok default_entity_vacation_0701 PRESET_HOME (at_clock 1 7 35)"

text \<open>
  A table with two slots twenty minutes apart, the entity built from it, and that
  entity after its tick of Tuesday 08:00.
\<close>

definition close_schedules :: schedule_table where
  "close_schedules =
     [(''weekday'',
        [\<lparr>slot_time = Some ''08:00'', slot_preset = Some PRESET_AWAY\<rparr>,
         \<lparr>slot_time = Some ''08:20'', slot_preset = Some PRESET_SLEEP\<rparr>])]"

definition close_entity :: entity where
  "close_entity =
     init_entity (default_entry\<lparr>options_schedules := Some close_schedules\<rparr>)"

definition close_entity_tue_0800 :: entity where
  "close_entity_tue_0800 =
     async_set_preset_mode hass_ok close_entity PRESET_AWAY (at_clock 1 8 0)"

text \<open>
  The timer source: the ticks at the times \<open>ts\<close>, delivered one after the other; a
  tick that raises leaves the entity as it was.
\<close>

fun run_ticks :: "hass \<Rightarrow> entity \<Rightarrow> datetime list \<Rightarrow> entity" where
  "run_ticks hass s [] = s"
| "run_ticks hass s (t # ts) =
     run_ticks hass (state_after s (async_check_schedule hass s t)) ts"

text \<open>
  A parser of \<^verbatim>\<open>float\<close> strings that accepts none; it stands for \<open>str_float\<close> at
  inputs where no string is converted.
\<close>

definition no_float_strings :: "string \<Rightarrow> real option" where
  "no_float_strings x = None"

text \<open>
  A stored state whose temperature attribute is \<^verbatim>\<open>None\<close> (what the entity writes
  as long as no target temperature was ever set) and whose preset is ``away''.
\<close>

definition stored_null_temperature :: stored_state where
  "stored_null_temperature =
     \<lparr> state = Some ''heat_cool'', attr_temperature = Some PyNone,
       attr_preset_mode = Some PRESET_AWAY \<rparr>"

text \<open>
  A stored state whose temperature is an integer beyond the range of a double.
\<close>

definition stored_huge_temperature :: stored_state where
  "stored_huge_temperature =
     \<lparr> state = Some ''heat_cool'', attr_temperature = Some (PyNum (10 ^ 400)),
       attr_preset_mode = Some PRESET_AWAY \<rparr>"

text \<open>A stored state with a temperature and no preset.\<close>

definition stored_no_preset :: stored_state where
  "stored_no_preset =
     \<lparr> state = Some ''heat_cool'', attr_temperature = Some (PyNum 19),
       attr_preset_mode = None \<rparr>"

text \<open>
  The weekday slots of \<^verbatim>\<open>DEFAULT_SCHEDULES\<close> in another storage order.
\<close>

definition shuffled_weekday :: "slot list" where
  "shuffled_weekday =
     [\<lparr>slot_time = Some ''17:00'', slot_preset = Some PRESET_HOME\<rparr>,
      \<lparr>slot_time = Some ''06:00'', slot_preset = Some PRESET_HOME\<rparr>,
      \<lparr>slot_time = Some ''22:00'', slot_preset = Some PRESET_SLEEP\<rparr>,
      \<lparr>slot_time = Some ''08:00'', slot_preset = Some PRESET_AWAY\<rparr>]"

text \<open>
  A table with an hour written without its leading zero, which
  \<^verbatim>\<open>strptime\<close> accepts.
\<close>

definition unpadded_weekday :: "slot list" where
  "unpadded_weekday =
     [\<lparr>slot_time = Some ''17:00'', slot_preset = Some PRESET_HOME\<rparr>,
      \<lparr>slot_time = Some ''6:00'', slot_preset = Some PRESET_AWAY\<rparr>]"

section \<open>Evaluation and field lemmas\<close>

lemmas const_defs =
  SCHEDULE_WEEKDAY_def SCHEDULE_WEEKEND_def PRESET_HOME_def PRESET_AWAY_def
  PRESET_SLEEP_def PRESET_VACATION_def ATTR_TEMPERATURE_def STATE_UNAVAILABLE_def
  STATE_UNKNOWN_def

lemmas clock_defs =
  us_per_minute_def us_per_day_def weekday_def time_of_def mk_time_def at_clock_def
  schedule_type_def

lemmas parse_defs =
  strptime_HM_def is_digit_def digit_val_def get_time_def sorted_slots_def

lemmas entity_defs =
  init_entity_def async_call_def async_apply_to_climate_entity_def
  async_write_ha_state_def async_set_temperature_def async_set_preset_mode_def
  attr_preset_modes_def dict_get_def preset_entry_def hass_ok_def Let_def

lemmas example_defs =
  DEFAULT_SCHEDULES_def DEFAULT_PRESETS_def default_entry_def default_entity_def
  bare_entry_def bare_entity_19_def default_entity_tue_0800_def

lemma apply_fields [simp]:
  "preset_mode (async_apply_to_climate_entity hass s) = preset_mode s"
  "target_temperature (async_apply_to_climate_entity hass s) = target_temperature s"
  "last_preset_change (async_apply_to_climate_entity hass s) = last_preset_change s"
  "hvac_mode (async_apply_to_climate_entity hass s) = hvac_mode s"
  "schedules (async_apply_to_climate_entity hass s) = schedules s"
  "presets (async_apply_to_climate_entity hass s) = presets s"
  "climate_entity (async_apply_to_climate_entity hass s) = climate_entity s"
  "state_writes (async_apply_to_climate_entity hass s) = state_writes s"
  by (simp_all add: async_apply_to_climate_entity_def async_call_def Let_def
      split: option.splits)

lemma write_fields [simp]:
  "preset_mode (async_write_ha_state s) = preset_mode s"
  "target_temperature (async_write_ha_state s) = target_temperature s"
  "last_preset_change (async_write_ha_state s) = last_preset_change s"
  "hvac_mode (async_write_ha_state s) = hvac_mode s"
  "schedules (async_write_ha_state s) = schedules s"
  "presets (async_write_ha_state s) = presets s"
  "climate_entity (async_write_ha_state s) = climate_entity s"
  "service_calls (async_write_ha_state s) = service_calls s"
  by (simp_all add: async_write_ha_state_def)

lemma set_preset_fields:
  assumes "p \<in> set attr_preset_modes"
  shows "preset_mode (async_set_preset_mode hass s p now) = p"
    and "last_preset_change (async_set_preset_mode hass s p now) = Some now"
    and "target_temperature (async_set_preset_mode hass s p now) =
           dict_get (preset_entry (presets s) (Some p)) ''temperature'' (PyNum 21)"
    and "hvac_mode (async_set_preset_mode hass s p now) = hvac_mode s"
  using assms by (simp_all add: async_set_preset_mode_def Let_def)

lemma set_preset_config [simp]:
  "schedules (async_set_preset_mode hass s p now) = schedules s"
  "presets (async_set_preset_mode hass s p now) = presets s"
  "climate_entity (async_set_preset_mode hass s p now) = climate_entity s"
  by (simp_all add: async_set_preset_mode_def Let_def)

lemma set_preset_unsupported:
  "p \<notin> set attr_preset_modes \<Longrightarrow> async_set_preset_mode hass s p now = s"
  by (simp add: async_set_preset_mode_def)

lemma active_preset_at_Nil [simp]: "active_preset_at [] t = Inr None"
  by (simp add: active_preset_at_def sorted_slots_def)

lemma minutes_since_lt:
  "minutes_since now changed < 30 \<longleftrightarrow> now < changed + 30 * us_per_minute"
proof -
  have "minutes_since now changed < 30 \<longleftrightarrow>
        real_of_int (int now - int changed) < real_of_int 1800000000"
    by (simp add: minutes_since_def field_simps)
  also have "\<dots> \<longleftrightarrow> int now - int changed < 1800000000"
    by (simp only: of_int_less_iff)
  also have "\<dots> \<longleftrightarrow> now < changed + 30 * us_per_minute"
    by (simp add: us_per_minute_def) linarith
  finally show ?thesis .
qed

section \<open>Rejected and ignored commands\<close>

text \<open>
  C6. A call of \<^verbatim>\<open>async_set_preset_mode\<close> with a name outside the supported preset
  set returns without raising and leaves the entity as it was: the active preset, the
  target temperature, the HVAC mode and the time of the last preset change are
  unchanged, no service call is dispatched and no state is written.
\<close>

theorem set_preset_mode_invalid_is_rejected:
  assumes "p \<notin> set attr_preset_modes"
  shows "async_set_preset_mode hass s p now = s
       \<and> preset_mode (async_set_preset_mode hass s p now) = preset_mode s
       \<and> target_temperature (async_set_preset_mode hass s p now) = target_temperature s
       \<and> hvac_mode (async_set_preset_mode hass s p now) = hvac_mode s
       \<and> last_preset_change (async_set_preset_mode hass s p now) = last_preset_change s
       \<and> service_calls (async_set_preset_mode hass s p now) = service_calls s"
  using assms by (simp add: async_set_preset_mode_def)

theorem set_preset_mode_invalid_is_rejected_witness:
  "''bogus'' \<notin> set attr_preset_modes
   \<and> async_set_preset_mode hass_ok default_entity ''bogus'' (at_clock 1 10 0) = default_entity"
proof -
  have h: "''bogus'' \<notin> set attr_preset_modes"
    by (simp add: attr_preset_modes_def const_defs)
  show ?thesis
    using h set_preset_mode_invalid_is_rejected [OF h, of hass_ok default_entity "at_clock 1 10 0"]
    by simp
qed

text \<open>
  C10. \<^verbatim>\<open>async_set_temperature\<close> acts only on a truthy temperature: when the
  \<^verbatim>\<open>temperature\<close> argument is absent, \<^verbatim>\<open>None\<close>, the number 0 or any other falsy
  value, the call leaves the entity as it was, so the target temperature is unchanged and
  no service call is dispatched.
\<close>

theorem set_temperature_falsy_is_noop:
  assumes "map_of kwargs ATTR_TEMPERATURE = None
           \<or> (\<exists>v. map_of kwargs ATTR_TEMPERATURE = Some v \<and> \<not> truthy v)"
  shows "async_set_temperature hass kwargs s = s"
  using assms by (auto simp add: async_set_temperature_def dict_get_def)

theorem set_temperature_falsy_is_noop_witness:
  "\<not> truthy (PyNum 0)
   \<and> async_set_temperature hass_ok [(ATTR_TEMPERATURE, PyNum 0)] bare_entity_19 = bare_entity_19
   \<and> target_temperature bare_entity_19 = PyNum 19"
proof -
  have h: "map_of [(ATTR_TEMPERATURE, PyNum 0)] ATTR_TEMPERATURE = None
           \<or> (\<exists>v. map_of [(ATTR_TEMPERATURE, PyNum 0)] ATTR_TEMPERATURE = Some v \<and> \<not> truthy v)"
    by simp
  have t: "target_temperature bare_entity_19 = PyNum 19"
    by (simp add: example_defs entity_defs const_defs)
  show ?thesis
    using set_temperature_falsy_is_noop [OF h, of hass_ok bare_entity_19] t by simp
qed

lemmas example2_defs =
  default_entity_vacation_def default_entity_vacation_0701_def
  default_entity_home_0735_def
  close_schedules_def close_entity_def close_entity_tue_0800_def

lemmas tick_defs =
  async_check_schedule_def get_day_schedule_def active_preset_at_def state_after_def

section \<open>Preset changes\<close>

text \<open>
  C2, as the specification states it, fails: a supported preset that the catalog does
  not know changes the target temperature. Here the catalog is empty, the target
  temperature is 19, and choosing ``away'' sets it to 21.
\<close>

theorem preset_without_temperature_counterexample:
  "PRESET_AWAY \<in> set attr_preset_modes
   \<and> map_of (presets bare_entity_19) PRESET_AWAY = None
   \<and> target_temperature bare_entity_19 = PyNum 19
   \<and> target_temperature
        (async_set_preset_mode hass_ok bare_entity_19 PRESET_AWAY (at_clock 1 10 0)) = PyNum 21"
  by (simp add: example_defs entity_defs const_defs)

text \<open>
  C2, amended. For every supported preset name that is absent from the Preset Catalog,
  or whose catalog entry has no temperature, \<^verbatim>\<open>async_set_preset_mode\<close> sets the
  target temperature to the built-in default 21.
\<close>

theorem preset_without_temperature_sets_21:
  assumes "p \<in> set attr_preset_modes"
    and "map_of (presets s) p = None
         \<or> (\<exists>e. map_of (presets s) p = Some e \<and> map_of e ''temperature'' = None)"
  shows "target_temperature (async_set_preset_mode hass s p now) = PyNum 21"
  using assms by (auto simp add: set_preset_fields dict_get_def preset_entry_def)

theorem preset_without_temperature_sets_21_witness:
  "PRESET_SLEEP \<in> set attr_preset_modes
   \<and> map_of (presets bare_entity_19) PRESET_SLEEP = None
   \<and> target_temperature
        (async_set_preset_mode hass_ok bare_entity_19 PRESET_SLEEP (at_clock 2 22 0)) = PyNum 21"
proof -
  have h1: "PRESET_SLEEP \<in> set attr_preset_modes"
    by (simp add: attr_preset_modes_def)
  have h2: "map_of (presets bare_entity_19) PRESET_SLEEP = None"
    by (simp add: example_defs entity_defs const_defs)
  show ?thesis
    using h1 h2
      preset_without_temperature_sets_21 [OF h1 disjI1 [OF h2], of hass_ok "at_clock 2 22 0"]
    by simp
qed

text \<open>
  C1 fails on the code. \<^verbatim>\<open>_async_check_schedule\<close> switches the preset through
  \<^verbatim>\<open>async_set_preset_mode\<close>, which stamps \<^verbatim>\<open>_last_preset_change\<close> on every call.
  On the default configuration, with no manual change ever made, the tick of Tuesday
  08:00 switches from ``home'' to ``away'' and sets the record to that instant.
\<close>

theorem schedule_change_stamps_last_preset_change:
  "last_preset_change default_entity = None
   \<and> async_check_schedule hass_ok default_entity (at_clock 1 8 0) = Inr default_entity_tue_0800
   \<and> preset_mode default_entity_tue_0800 = PRESET_AWAY
   \<and> last_preset_change default_entity_tue_0800 = Some (at_clock 1 8 0)"
  by (simp add: tick_defs example_defs entity_defs const_defs clock_defs parse_defs)

text \<open>
  The consequence of that stamp: with two slots twenty minutes apart and no manual
  change ever made, the tick of 08:00 applies ``away'' and the tick of 08:20, whose
  resolved preset is ``sleep'', is suppressed as if the user had overridden the schedule.
\<close>

lemma schedule_change_suppresses_next_slot:
  "last_preset_change close_entity = None
   \<and> async_check_schedule hass_ok close_entity (at_clock 1 8 0) = Inr close_entity_tue_0800
   \<and> active_preset_at (get_day_schedule (schedules close_entity_tue_0800) (at_clock 1 8 20))
        (time_of (at_clock 1 8 20)) = Inr (Some PRESET_SLEEP)
   \<and> async_check_schedule hass_ok close_entity_tue_0800 (at_clock 1 8 20)
        = Inr close_entity_tue_0800
   \<and> preset_mode close_entity_tue_0800 = PRESET_AWAY"
  by (simp add: tick_defs example_defs example2_defs entity_defs const_defs clock_defs
      parse_defs minutes_since_lt)

section \<open>The tick\<close>

text \<open>
  C7. When a tick returns, a second tick at the same clock reading, with the schedule
  table and the catalog unchanged, returns the very same entity: it changes neither the
  active preset, nor the target temperature, nor the time of the last preset change,
  and it dispatches nothing. (A tick that raises has written nothing.)
\<close>

theorem tick_idempotent:
  assumes "async_check_schedule hass s now = Inr s1"
  shows "async_check_schedule hass s1 now = Inr s1"
proof (cases "s1 = s")
  case True
  with assms show ?thesis by simp
next
  case False
  with assms obtain p where p: "s1 = async_set_preset_mode hass s p now"
     and act: "active_preset_at (get_day_schedule (schedules s) now) (time_of now) = Inr (Some p)"
    by (auto simp add: async_check_schedule_def Let_def
        split: if_splits sum.splits option.splits)
  from False p have "p \<in> set attr_preset_modes"
    by (rule_tac ccontr) (simp add: set_preset_unsupported)
  then have "preset_mode s1 = p" by (simp add: p set_preset_fields)
  moreover have "schedules s1 = schedules s" by (simp add: p)
  ultimately show ?thesis using act
    by (simp add: async_check_schedule_def Let_def)
qed

theorem tick_idempotent_witness:
  "async_check_schedule hass_ok default_entity (at_clock 1 8 0) = Inr default_entity_tue_0800
   \<and> default_entity_tue_0800 \<noteq> default_entity
   \<and> async_check_schedule hass_ok default_entity_tue_0800 (at_clock 1 8 0)
       = Inr default_entity_tue_0800"
proof -
  have h: "async_check_schedule hass_ok default_entity (at_clock 1 8 0)
           = Inr default_entity_tue_0800"
    by (simp add: tick_defs example_defs entity_defs const_defs clock_defs parse_defs)
  have "preset_mode default_entity_tue_0800 \<noteq> preset_mode default_entity"
    by (simp add: example_defs entity_defs const_defs)
  then have d: "default_entity_tue_0800 \<noteq> default_entity" by auto
  show ?thesis using h d tick_idempotent [OF h] by simp
qed

lemma run_ticks_unchanged:
  assumes "\<And>t. t \<in> set ts \<Longrightarrow> state_after s (async_check_schedule hass s t) = s"
  shows "run_ticks hass s ts = s"
  using assms by (induction ts) simp_all

lemma tick_in_window_unchanged:
  assumes "last_preset_change s = Some T" and "T' < T + 30 * us_per_minute"
  shows "state_after s (async_check_schedule hass s T') = s"
  using assms
  by (auto simp add: async_check_schedule_def Let_def state_after_def minutes_since_lt
      split: sum.splits option.splits)

lemma tick_after_window_applies:
  assumes "last_preset_change s = Some T" and "T + 30 * us_per_minute \<le> T'"
    and act: "active_preset_at (get_day_schedule (schedules s) T') (time_of T') = Inr (Some q)"
    and "q \<noteq> []" and "q \<noteq> preset_mode s"
  shows "async_check_schedule hass s T' = Inr (async_set_preset_mode hass s q T')"
proof -
  from act have ne: "get_day_schedule (schedules s) T' \<noteq> []" by auto
  then have "schedules s \<noteq> []" by (auto simp add: get_day_schedule_def)
  with assms ne show ?thesis
    by (simp add: async_check_schedule_def Let_def minutes_since_lt)
qed

text \<open>
  What the guard does on the entity \<open>s1\<close> that a manual choice of a supported preset
  \<open>p\<close> at time \<open>T\<close> leaves. Every tick at a time \<open>T'\<close> before \<open>T\<close> + 30 minutes
  leaves \<open>s1\<close> unchanged, whatever the schedule resolves to, and so does any run of
  such ticks. A tick that finds \<open>s1\<close> at a time \<open>T'\<close> of at least \<open>T\<close> + 30
  minutes, and whose resolved preset \<open>q\<close> is non-empty and differs from \<open>p\<close>, is
  not suppressed: it hands \<open>q\<close> to \<^verbatim>\<open>async_set_preset_mode\<close>.
\<close>

lemma tick_after_manual_change:
  assumes p: "p \<in> set attr_preset_modes"
    and s1: "s1 = async_set_preset_mode hass s p T"
  shows "(T' < T + 30 * us_per_minute \<longrightarrow>
            state_after s1 (async_check_schedule hass s1 T') = s1)
       \<and> ((\<forall>t \<in> set ts. t < T + 30 * us_per_minute) \<longrightarrow> run_ticks hass s1 ts = s1)
       \<and> (T + 30 * us_per_minute \<le> T'
            \<and> active_preset_at (get_day_schedule (schedules s1) T') (time_of T')
                = Inr (Some q)
            \<and> q \<noteq> [] \<and> q \<noteq> p \<longrightarrow>
              async_check_schedule hass s1 T' = Inr (async_set_preset_mode hass s1 q T')
            \<and> (q \<in> set attr_preset_modes \<longrightarrow>
                 preset_mode (async_set_preset_mode hass s1 q T') = q)
            \<and> (q \<notin> set attr_preset_modes \<longrightarrow>
                 async_set_preset_mode hass s1 q T' = s1))"
proof -
  have l: "last_preset_change s1 = Some T" and pm: "preset_mode s1 = p"
    using p by (simp_all add: s1 set_preset_fields)
  have a: "T' < T + 30 * us_per_minute \<longrightarrow>
            state_after s1 (async_check_schedule hass s1 T') = s1"
    using tick_in_window_unchanged [OF l] by blast
  have b: "(\<forall>t \<in> set ts. t < T + 30 * us_per_minute) \<longrightarrow> run_ticks hass s1 ts = s1"
    using tick_in_window_unchanged [OF l] run_ticks_unchanged [of ts s1 hass] by blast
  have c: "T + 30 * us_per_minute \<le> T'
            \<and> active_preset_at (get_day_schedule (schedules s1) T') (time_of T')
                = Inr (Some q)
            \<and> q \<noteq> [] \<and> q \<noteq> p \<longrightarrow>
              async_check_schedule hass s1 T' = Inr (async_set_preset_mode hass s1 q T')
            \<and> (q \<in> set attr_preset_modes \<longrightarrow>
                 preset_mode (async_set_preset_mode hass s1 q T') = q)
            \<and> (q \<notin> set attr_preset_modes \<longrightarrow>
                 async_set_preset_mode hass s1 q T' = s1)"
    using tick_after_window_applies [OF l, of T' q hass] pm
    by (simp add: set_preset_fields set_preset_unsupported)
  from a b c show ?thesis by blast
qed

text \<open>
  Scenario C of the specification: ``vacation'' chosen on Tuesday at 10:00; the ticks
  of 10:05 to 10:25 change nothing; the tick of 10:31 switches to ``away'' at 18
  degrees.
\<close>

lemma scenario_C:
  "PRESET_VACATION \<in> set attr_preset_modes
   \<and> state_after default_entity_vacation
        (async_check_schedule hass_ok default_entity_vacation (at_clock 1 10 20))
        = default_entity_vacation
   \<and> run_ticks hass_ok default_entity_vacation
        [at_clock 1 10 5, at_clock 1 10 10, at_clock 1 10 15, at_clock 1 10 20, at_clock 1 10 25]
        = default_entity_vacation
   \<and> async_check_schedule hass_ok default_entity_vacation (at_clock 1 10 31)
        = Inr (async_set_preset_mode hass_ok default_entity_vacation PRESET_AWAY (at_clock 1 10 31))
   \<and> preset_mode
        (async_set_preset_mode hass_ok default_entity_vacation PRESET_AWAY (at_clock 1 10 31))
        = PRESET_AWAY
   \<and> target_temperature
        (async_set_preset_mode hass_ok default_entity_vacation PRESET_AWAY (at_clock 1 10 31))
        = PyNum 18"
proof -
  let ?ts = "[at_clock 1 10 5, at_clock 1 10 10, at_clock 1 10 15, at_clock 1 10 20,
              at_clock 1 10 25]"
  have h1: "PRESET_VACATION \<in> set attr_preset_modes"
    by (simp add: attr_preset_modes_def)
  have h2: "default_entity_vacation
            = async_set_preset_mode hass_ok default_entity PRESET_VACATION (at_clock 1 10 0)"
    by (simp add: default_entity_vacation_def)
  have w1: "at_clock 1 10 20 < at_clock 1 10 0 + 30 * us_per_minute"
    by (simp add: clock_defs)
  have w2: "\<forall>t \<in> set ?ts. t < at_clock 1 10 0 + 30 * us_per_minute"
    by (simp add: clock_defs)
  have w3: "at_clock 1 10 0 + 30 * us_per_minute \<le> at_clock 1 10 31"
    by (simp add: clock_defs)
  have w4: "active_preset_at
              (get_day_schedule (schedules default_entity_vacation) (at_clock 1 10 31))
              (time_of (at_clock 1 10 31)) = Inr (Some PRESET_AWAY)"
    by (simp add: tick_defs example_defs example2_defs entity_defs const_defs clock_defs
        parse_defs)
  have w5: "PRESET_AWAY \<noteq> [] \<and> PRESET_AWAY \<noteq> PRESET_VACATION
            \<and> PRESET_AWAY \<in> set attr_preset_modes"
    by (simp add: attr_preset_modes_def const_defs)
  have t: "target_temperature
             (async_set_preset_mode hass_ok default_entity_vacation PRESET_AWAY (at_clock 1 10 31))
           = PyNum 18"
    by (simp add: example_defs example2_defs entity_defs const_defs)
  have a: "state_after default_entity_vacation
        (async_check_schedule hass_ok default_entity_vacation (at_clock 1 10 20))
        = default_entity_vacation"
    using tick_after_manual_change [OF h1 h2, of "at_clock 1 10 20" "[]" "[]"] w1 by blast
  have b: "run_ticks hass_ok default_entity_vacation ?ts = default_entity_vacation"
    using tick_after_manual_change [OF h1 h2, of "at_clock 1 10 20" ?ts "[]"] w2 by blast
  have c: "async_check_schedule hass_ok default_entity_vacation (at_clock 1 10 31)
        = Inr (async_set_preset_mode hass_ok default_entity_vacation PRESET_AWAY (at_clock 1 10 31))
      \<and> preset_mode
        (async_set_preset_mode hass_ok default_entity_vacation PRESET_AWAY (at_clock 1 10 31))
        = PRESET_AWAY"
    using tick_after_manual_change [OF h1 h2, of "at_clock 1 10 31" "[]" PRESET_AWAY] w3 w4 w5 by blast
  from h1 a b c t show ?thesis by blast
qed

text \<open>
  C3 fails on the code, by the stamp that C1 is about. On the default configuration
  the user chooses ``vacation'' on Tuesday at 07:01. The ticks of 07:05 to 07:30 are
  suppressed. The tick of 07:35 switches to ``home'', the preset of the 06:00 slot,
  and \<^verbatim>\<open>async_set_preset_mode\<close> stamps \<^verbatim>\<open>_last_preset_change\<close> with 07:35. The
  ticks of 07:40 to 07:55 find nothing to change. At 08:00, 59 minutes after the only
  manual change, the schedule resolves ``away'', a supported preset that differs from
  the active ``home'': the change is due, and the guard suppresses it, because the
  record is 25 minutes old. The active preset stays ``home''.
\<close>

theorem override_law_broken_by_schedule_stamp:
  "default_entity_vacation_0701
     = async_set_preset_mode hass_ok default_entity PRESET_VACATION (at_clock 1 7 1)
   \<and> PRESET_VACATION \<in> set attr_preset_modes
   \<and> run_ticks hass_ok default_entity_vacation_0701
        [at_clock 1 7 5, at_clock 1 7 10, at_clock 1 7 15, at_clock 1 7 20, at_clock 1 7 25,
         at_clock 1 7 30] = default_entity_vacation_0701
   \<and> async_check_schedule hass_ok default_entity_vacation_0701 (at_clock 1 7 35)
        = Inr default_entity_home_0735
   \<and> last_preset_change default_entity_home_0735 = Some (at_clock 1 7 35)
   \<and> run_ticks hass_ok default_entity_home_0735
        [at_clock 1 7 40, at_clock 1 7 45, at_clock 1 7 50, at_clock 1 7 55]
        = default_entity_home_0735
   \<and> at_clock 1 7 1 + 30 * us_per_minute \<le> at_clock 1 8 0
   \<and> active_preset_at (get_day_schedule (schedules default_entity_home_0735) (at_clock 1 8 0))
        (time_of (at_clock 1 8 0)) = Inr (Some PRESET_AWAY)
   \<and> PRESET_AWAY \<in> set attr_preset_modes
   \<and> preset_mode default_entity_home_0735 = PRESET_HOME
   \<and> async_check_schedule hass_ok default_entity_home_0735 (at_clock 1 8 0)
        = Inr default_entity_home_0735"
proof -
  have 1: "default_entity_vacation_0701
     = async_set_preset_mode hass_ok default_entity PRESET_VACATION (at_clock 1 7 1)"
    by (simp add: default_entity_vacation_0701_def)
  have 2: "PRESET_VACATION \<in> set attr_preset_modes" "PRESET_AWAY \<in> set attr_preset_modes"
    by (simp_all add: attr_preset_modes_def)
  have lv: "last_preset_change default_entity_vacation_0701 = Some (at_clock 1 7 1)"
    using 2(1) by (simp add: default_entity_vacation_0701_def set_preset_fields)
  have 3: "run_ticks hass_ok default_entity_vacation_0701
        [at_clock 1 7 5, at_clock 1 7 10, at_clock 1 7 15, at_clock 1 7 20, at_clock 1 7 25,
         at_clock 1 7 30] = default_entity_vacation_0701"
  proof (rule run_ticks_unchanged)
    fix t
    assume "t \<in> set [at_clock 1 7 5, at_clock 1 7 10, at_clock 1 7 15, at_clock 1 7 20,
                       at_clock 1 7 25, at_clock 1 7 30]"
    then have "t < at_clock 1 7 1 + 30 * us_per_minute"
      by (auto simp add: clock_defs)
    with lv show "state_after default_entity_vacation_0701
                    (async_check_schedule hass_ok default_entity_vacation_0701 t)
                  = default_entity_vacation_0701"
      by (rule tick_in_window_unchanged)
  qed
  have 4: "async_check_schedule hass_ok default_entity_vacation_0701 (at_clock 1 7 35)
        = Inr default_entity_home_0735"
    by (simp add: tick_defs example_defs example2_defs entity_defs const_defs clock_defs
        parse_defs minutes_since_lt)
  have 5: "last_preset_change default_entity_home_0735 = Some (at_clock 1 7 35)"
    by (simp add: default_entity_home_0735_def set_preset_fields attr_preset_modes_def)
  have 6: "run_ticks hass_ok default_entity_home_0735
        [at_clock 1 7 40, at_clock 1 7 45, at_clock 1 7 50, at_clock 1 7 55]
        = default_entity_home_0735"
  proof (rule run_ticks_unchanged)
    fix t
    assume "t \<in> set [at_clock 1 7 40, at_clock 1 7 45, at_clock 1 7 50, at_clock 1 7 55]"
    then have "t < at_clock 1 7 35 + 30 * us_per_minute"
      by (auto simp add: clock_defs)
    with 5 show "state_after default_entity_home_0735
                    (async_check_schedule hass_ok default_entity_home_0735 t)
                  = default_entity_home_0735"
      by (rule tick_in_window_unchanged)
  qed
  have 7: "at_clock 1 7 1 + 30 * us_per_minute \<le> at_clock 1 8 0"
    by (simp add: clock_defs)
  have 8: "active_preset_at (get_day_schedule (schedules default_entity_home_0735) (at_clock 1 8 0))
        (time_of (at_clock 1 8 0)) = Inr (Some PRESET_AWAY)"
    by (simp add: tick_defs example_defs example2_defs entity_defs const_defs clock_defs
        parse_defs)
  have 9: "preset_mode default_entity_home_0735 = PRESET_HOME"
    by (simp add: default_entity_home_0735_def set_preset_fields attr_preset_modes_def)
  have 10: "async_check_schedule hass_ok default_entity_home_0735 (at_clock 1 8 0)
        = Inr default_entity_home_0735"
    by (simp add: tick_defs example_defs example2_defs entity_defs const_defs clock_defs
        parse_defs minutes_since_lt)
  from 1 2 3 4 5 6 7 8 9 10 show ?thesis by (intro conjI)
qed

section \<open>Restoring: all or nothing\<close>

lemmas restore_defs =
  restore_state_def no_float_strings_def stored_null_temperature_def stored_no_preset_def
  stored_huge_temperature_def

lemma float_overflow_bound_large: "10 ^ 300 < float_overflow_bound"
  by (simp add: float_overflow_bound_def)

lemma py_float_in_range:
  "\<bar>r\<bar> < float_overflow_bound \<Longrightarrow> py_float str_float (PyNum r) = Inr r"
  by simp

lemma py_float_21 [simp]: "py_float str_float (PyNum 21) = Inr 21"
  using float_overflow_bound_large by (intro py_float_in_range) simp

lemma py_float_19 [simp]: "py_float str_float (PyNum 19) = Inr 19"
  using float_overflow_bound_large by (intro py_float_in_range) simp




text \<open>
  The input the amended claim leaves out: a stored temperature that is an integer too
  large for a double. \<^verbatim>\<open>float\<close> raises OverflowError, which the
  \<^verbatim>\<open>except (ValueError, TypeError)\<close> clause does not catch, and the exception leaves
  \<^verbatim>\<open>async_added_to_hass\<close>.
\<close>

lemma restore_overflow_is_not_caught:
  "restore_state no_float_strings (Some stored_huge_temperature) default_entity
     = Inl OverflowError
   \<and> async_added_to_hass no_float_strings hass_ok (Some stored_huge_temperature)
        default_entity (at_clock 1 8 0) = Inl OverflowError"
  by (simp add: restore_defs async_added_to_hass_def float_overflow_bound_def const_defs)

section \<open>The resolver\<close>

lemmas resolver_defs =
  slot_tod_def get_next_schedule_def get_next_temperature_def get_next_slot_def
  get_day_schedule_def active_preset_at_def shuffled_weekday_def unpadded_weekday_def
  presets_without_away_def

subsection \<open>Valid slot times parse, and their string order is their time order\<close>


lemma digit_val_lt10: "is_digit c \<Longrightarrow> digit_val c < 10"
  by (auto simp add: is_digit_def digit_val_def)

lemma digit_less_iff: "is_digit a \<Longrightarrow> is_digit b \<Longrightarrow> a < b \<longleftrightarrow> digit_val a < digit_val b"
  unfolding is_digit_def digit_val_def less_char_def by auto

lemma digit_eq_iff: "is_digit a \<Longrightarrow> is_digit b \<Longrightarrow> a = b \<longleftrightarrow> digit_val a = digit_val b"
  unfolding is_digit_def digit_val_def by auto

lemma is_digitE:
  assumes "is_digit c"
  obtains "c = CHR ''0''" | "c = CHR ''1''" | "c = CHR ''2''" | "c = CHR ''3''"
    | "c = CHR ''4''" | "c = CHR ''5''" | "c = CHR ''6''" | "c = CHR ''7''"
    | "c = CHR ''8''" | "c = CHR ''9''"
  using assms unfolding is_digit_def by auto

lemma regex_H_valid:
  assumes "is_digit a" "is_digit b" "10 * digit_val a + digit_val b < 24"
  shows "regex_H (a # b # r) = Some (10 * digit_val a + digit_val b, r)"
  by (cases rule: is_digitE [OF assms(1)]; cases rule: is_digitE [OF assms(2)];
      insert assms(3); simp add: digit_val_def is_digit_def)

lemma regex_M_valid:
  assumes "is_digit a" "is_digit b" "10 * digit_val a + digit_val b < 60"
  shows "regex_M [a, b] = Some (10 * digit_val a + digit_val b, [])"
  by (cases rule: is_digitE [OF assms(1)]; cases rule: is_digitE [OF assms(2)];
      insert assms(3); simp add: digit_val_def is_digit_def)

lemma strptime_valid:
  assumes "valid_HHMM [a, b, c, d, e]"
  shows "strptime_HM [a, b, c, d, e]
         = Inr (mk_time (10 * digit_val a + digit_val b) (10 * digit_val d + digit_val e))"
proof -
  from assms have c: "c = CHR '':''" by simp
  from assms have h: "regex_H (a # b # CHR '':'' # [d, e])
                      = Some (10 * digit_val a + digit_val b, CHR '':'' # [d, e])"
    by (intro regex_H_valid) simp_all
  from assms have m: "regex_M [d, e] = Some (10 * digit_val d + digit_val e, [])"
    by (intro regex_M_valid) simp_all
  show ?thesis
    unfolding strptime_HM_def c using h m by (simp del: regex_H.simps regex_M.simps)
qed

lemma lex2_less:
  fixes A B A' B' :: nat
  assumes "B < k" "B' < k"
  shows "(A < A' \<or> A = A' \<and> B < B') \<longleftrightarrow> k * A + B < k * A' + B'"
proof
  assume "A < A' \<or> A = A' \<and> B < B'"
  then show "k * A + B < k * A' + B'"
  proof
    assume "A < A'"
    then have "Suc A \<le> A'" by simp
    then have "k * Suc A \<le> k * A'" by (rule mult_le_mono2)
    with assms show ?thesis by simp
  next
    assume "A = A' \<and> B < B'"
    then show ?thesis by simp
  qed
next
  assume r: "k * A + B < k * A' + B'"
  show "A < A' \<or> A = A' \<and> B < B'"
  proof (rule ccontr)
    assume "\<not> ?thesis"
    then have "A' < A \<or> A = A' \<and> B' \<le> B" by auto
    then show False
    proof
      assume "A' < A"
      then have "Suc A' \<le> A" by simp
      then have "k * Suc A' \<le> k * A" by (rule mult_le_mono2)
      with assms r show False by simp
    next
      assume "A = A' \<and> B' \<le> B"
      with r show False by simp
    qed
  qed
qed

lemma lex2_eq:
  fixes A B A' B' :: nat
  assumes "B < k" "B' < k"
  shows "(A = A' \<and> B = B') \<longleftrightarrow> k * A + B = k * A' + B'"
proof
  assume "A = A' \<and> B = B'"
  then show "k * A + B = k * A' + B'" by simp
next
  assume e: "k * A + B = k * A' + B'"
  have 1: "\<not> (A < A' \<or> A = A' \<and> B < B')"
    using lex2_less [OF assms, of A A'] e by simp
  have 2: "\<not> (A' < A \<or> A' = A \<and> B' < B)"
    using lex2_less [OF assms(2) assms(1), of A' A] e by simp
  from 1 2 show "A = A' \<and> B = B'" by auto
qed


lemma us_per_minute_pos: "0 < us_per_minute"
  by (simp add: us_per_minute_def)

lemma mk_time_le_iff: "mk_time h m \<le> mk_time h' m' \<longleftrightarrow> 60 * h + m \<le> 60 * h' + m'"
  using us_per_minute_pos by (simp add: mk_time_def mult.commute)

lemma valid_char_less_iff:
  assumes "valid_HHMM [a, b, c, d, e]" "valid_HHMM [a', b', c', d', e']"
  shows "[a, b, c, d, e] < [a', b', c', d', e'] \<longleftrightarrow>
         60 * (10 * digit_val a + digit_val b) + (10 * digit_val d + digit_val e)
         < 60 * (10 * digit_val a' + digit_val b') + (10 * digit_val d' + digit_val e')"
proof -
  let ?A = "digit_val a" and ?B = "digit_val b" and ?D = "digit_val d" and ?E = "digit_val e"
  let ?A' = "digit_val a'" and ?B' = "digit_val b'" and ?D' = "digit_val d'"
    and ?E' = "digit_val e'"
  from assms have dg: "is_digit a" "is_digit b" "is_digit d" "is_digit e"
    "is_digit a'" "is_digit b'" "is_digit d'" "is_digit e'" and cc: "c = c'"
    and mm: "10 * ?D + ?E < 60" "10 * ?D' + ?E' < 60"
    by simp_all
  have b10: "?B < 10" "?B' < 10" "?E < 10" "?E' < 10"
    using dg by (simp_all add: digit_val_lt10)
  have "[a, b, c, d, e] < [a', b', c', d', e'] \<longleftrightarrow>
        (?A < ?A' \<or> ?A = ?A' \<and> ?B < ?B')
        \<or> (?A = ?A' \<and> ?B = ?B') \<and> (?D < ?D' \<or> ?D = ?D' \<and> ?E < ?E')"
    using dg cc by (simp add: digit_less_iff digit_eq_iff) blast
  also have "\<dots> \<longleftrightarrow>
        (10 * ?A + ?B < 10 * ?A' + ?B')
        \<or> (10 * ?A + ?B = 10 * ?A' + ?B') \<and> (10 * ?D + ?E < 10 * ?D' + ?E')"
    by (simp only: lex2_less [OF b10(1) b10(2)] lex2_eq [OF b10(1) b10(2)]
        lex2_less [OF b10(3) b10(4)])
  also have "\<dots> \<longleftrightarrow> 60 * (10 * ?A + ?B) + (10 * ?D + ?E)
        < 60 * (10 * ?A' + ?B') + (10 * ?D' + ?E')"
    by (rule lex2_less [OF mm])
  finally show ?thesis .
qed

lemma valid_HHMM_E:
  assumes "valid_HHMM s"
  obtains a b c d e where "s = [a, b, c, d, e]"
  using assms by (rule valid_HHMM.elims(2)) blast

lemma strptime_mono:
  assumes "valid_HHMM s" "valid_HHMM t" "s \<le> t"
  shows "\<exists>u v. strptime_HM s = Inr u \<and> strptime_HM t = Inr v \<and> u \<le> v"
proof -
  from assms(1) obtain a b c d e where s: "s = [a, b, c, d, e]" by (rule valid_HHMM_E)
  from assms(2) obtain a' b' c' d' e' where t: "t = [a', b', c', d', e']"
    by (rule valid_HHMM_E)
  have "s < t \<or> s = t" using assms(3) by (simp add: le_less)
  then have "60 * (10 * digit_val a + digit_val b) + (10 * digit_val d + digit_val e)
         \<le> 60 * (10 * digit_val a' + digit_val b') + (10 * digit_val d' + digit_val e')"
  proof
    assume "s < t"
    then show ?thesis
      using valid_char_less_iff [of a b c d e a' b' c' d' e'] assms(1,2)
      unfolding s t by simp
  next
    assume "s = t"
    then show ?thesis unfolding s t by simp
  qed
  then show ?thesis
    using strptime_valid [of a b c d e] strptime_valid [of a' b' c' d' e'] assms(1,2)
    unfolding s t by (simp add: mk_time_le_iff)
qed

lemma strptime_slot_tod:
  assumes "valid_HHMM (get_time x)"
  shows "strptime_HM (get_time x) = Inr (slot_tod x)"
proof -
  from assms obtain a b c d e where s: "get_time x = [a, b, c, d, e]" by (rule valid_HHMM_E)
  show ?thesis
    using strptime_valid [of a b c d e] assms unfolding slot_tod_def s by simp
qed

lemma slot_tod_mono:
  assumes "valid_HHMM (get_time x)" "valid_HHMM (get_time y)" "get_time x \<le> get_time y"
  shows "slot_tod x \<le> slot_tod y"
  using strptime_mono [OF assms] strptime_slot_tod [OF assms(1)] strptime_slot_tod [OF assms(2)]
  by auto

lemma sorted_slots_by_tod:
  assumes "\<forall>x \<in> set ds. valid_HHMM (get_time x)"
  shows "sorted (map slot_tod (sorted_slots ds))"
proof -
  have "sorted (map get_time (sorted_slots ds))"
    by (simp add: sorted_slots_def)
  then have "sorted_wrt (\<lambda>x y. get_time x \<le> get_time y) (sorted_slots ds)"
    by (simp add: sorted_map)
  then have "sorted_wrt (\<lambda>x y. slot_tod x \<le> slot_tod y) (sorted_slots ds)"
  proof (rule sorted_wrt_mono_rel [rotated])
    fix x y
    assume "x \<in> set (sorted_slots ds)" "y \<in> set (sorted_slots ds)"
      "get_time x \<le> get_time y"
    with assms show "slot_tod x \<le> slot_tod y"
      by (simp add: sorted_slots_def slot_tod_mono)
  qed
  then show ?thesis by (simp add: sorted_map)
qed


lemma find_current_slot_takeWhile:
  assumes "\<forall>x \<in> set xs. valid_HHMM (get_time x)"
  shows "find_current_slot ct xs acc =
         Inr (if takeWhile (\<lambda>x. slot_tod x \<le> ct) xs = [] then acc
              else slot_preset (last (takeWhile (\<lambda>x. slot_tod x \<le> ct) xs)))"
  using assms
proof (induction xs arbitrary: acc)
  case Nil
  then show ?case by simp
next
  case (Cons x xs)
  then show ?case by (simp add: strptime_slot_tod)
qed

lemma takeWhile_eq_filter_sorted:
  assumes "sorted (map f xs)"
  shows "takeWhile (\<lambda>x. f x \<le> (c::nat)) xs = filter (\<lambda>x. f x \<le> c) xs"
  using assms
proof (induction xs)
  case Nil
  then show ?case by simp
next
  case (Cons x xs)
  show ?case
  proof (cases "f x \<le> c")
    case True
    with Cons show ?thesis by simp
  next
    case False
    with Cons.prems have "\<forall>y \<in> set xs. \<not> f y \<le> c" by fastforce
    then have "filter (\<lambda>x. f x \<le> c) xs = []" by (simp add: filter_empty_conv)
    with False show ?thesis by simp
  qed
qed

lemma sorted_map_le_last:
  assumes "sorted (map f ys)" "y \<in> set ys"
  shows "f y \<le> (f (last ys) :: nat)"
  using assms by (induction ys) auto

lemma find_sorted_least:
  assumes "sorted (map f xs)" "find (\<lambda>x. (c::nat) < f x) xs = Some x" "y \<in> set xs" "c < f y"
  shows "f x \<le> f y"
  using assms by (induction xs) (auto split: if_splits)

lemma next_slot_loop_find:
  assumes "\<forall>x \<in> set xs. valid_HHMM (get_time x)"
  shows "next_slot_loop ct xs = Inr (find (\<lambda>x. ct < slot_tod x) xs)"
  using assms by (induction xs) (simp_all add: strptime_slot_tod)

lemma strptime_midnight: "strptime_HM ''00:00'' = Inr 0"
  by (simp add: strptime_HM_def is_digit_def digit_val_def mk_time_def)

lemma next_scans_agree:
  "next_slot_loop ct xs = Inl e \<Longrightarrow>
     next_schedule_loop ct xs = Inl e \<and> next_temperature_loop cat ct xs = Inl e"
  "next_slot_loop ct xs = Inr None \<Longrightarrow>
     next_schedule_loop ct xs = Inr None \<and> next_temperature_loop cat ct xs = Inr PyNone"
  "next_slot_loop ct xs = Inr (Some x) \<Longrightarrow>
     next_schedule_loop ct xs = Inr (slot_time x)
     \<and> next_temperature_loop cat ct xs
         = Inr (dict_get (preset_entry cat (slot_preset x)) ''temperature'' PyNone)"
  by (induction xs; simp split: sum.splits if_splits)+

lemma next_slot_loop_Some:
  assumes "next_slot_loop ct xs = Inr (Some x)"
  shows "x \<in> set xs \<and> (\<exists>st. strptime_HM (get_time x) = Inr st \<and> ct < st)
         \<and> slot_time x = Some (get_time x)"
  using assms
proof (induction xs)
  case Nil
  then show ?case by simp
next
  case (Cons y xs)
  show ?case
  proof (cases "strptime_HM (get_time y)")
    case (Inl e)
    with Cons.prems show ?thesis by simp
  next
    case (Inr st)
    show ?thesis
    proof (cases "ct < st")
      case True
      with Inr Cons.prems have xy: "x = y" by simp
      have "slot_time y \<noteq> None"
      proof
        assume "slot_time y = None"
        then have "get_time y = ''00:00''" by (simp add: get_time_def)
        with Inr strptime_midnight have "st = 0" by simp
        with True show False by simp
      qed
      then have "slot_time y = Some (get_time y)" by (auto simp add: get_time_def)
      with xy Inr True show ?thesis by simp
    next
      case False
      with Inr Cons show ?thesis by simp
    qed
  qed
qed

lemma next_schedule_loop_None:
  assumes "next_schedule_loop ct xs = Inr None"
  shows "next_slot_loop ct xs = Inr None"
proof (cases "next_slot_loop ct xs")
  case (Inl e)
  with next_scans_agree(1) [of ct xs e] assms show ?thesis by simp
next
  case (Inr r)
  show ?thesis
  proof (cases r)
    case None
    with Inr show ?thesis by simp
  next
    case (Some x)
    with Inr next_scans_agree(3) [of ct xs x] next_slot_loop_Some [of ct xs x] assms
    show ?thesis by simp
  qed
qed

lemma next_schedule_loop_Some:
  assumes "next_schedule_loop ct xs = Inr (Some t)"
  shows "\<exists>x \<in> set xs. next_slot_loop ct xs = Inr (Some x) \<and> slot_time x = Some t
           \<and> get_time x = t \<and> (\<exists>st. strptime_HM t = Inr st \<and> ct < st)"
proof (cases "next_slot_loop ct xs")
  case (Inl e)
  with next_scans_agree(1) [of ct xs e] assms show ?thesis by simp
next
  case (Inr r)
  show ?thesis
  proof (cases r)
    case None
    with Inr next_scans_agree(2) [of ct xs] assms show ?thesis by simp
  next
    case (Some x)
    with Inr next_scans_agree(3) [of ct xs x] next_slot_loop_Some [of ct xs x] assms
    show ?thesis by auto
  qed
qed


lemma sorted_slots_valid:
  "\<forall>x \<in> set ds. valid_HHMM (get_time x) \<Longrightarrow> \<forall>x \<in> set (sorted_slots ds). valid_HHMM (get_time x)"
  by (simp add: sorted_slots_def)

subsection \<open>The active preset\<close>

text \<open>
  C4. Let every slot of the day's list carry a valid \<^verbatim>\<open>HH:MM\<close> time, as the data
  model requires. If some slot has a time of day at or before \<open>now\<close>, the scan of
  \<^verbatim>\<open>_async_check_schedule\<close> returns the preset of a slot of the list whose time is
  at or before \<open>now\<close> and is the latest such time, whatever the order in which the
  list stores its slots. If \<open>now\<close> precedes every slot, it returns none.
\<close>

theorem active_preset_is_latest_slot:
  assumes "\<forall>x \<in> set day_schedule. valid_HHMM (get_time x)"
  shows "((\<exists>x \<in> set day_schedule. slot_tod x \<le> now) \<longrightarrow>
            (\<exists>x \<in> set day_schedule. slot_tod x \<le> now
               \<and> (\<forall>y \<in> set day_schedule. slot_tod y \<le> now \<longrightarrow> slot_tod y \<le> slot_tod x)
               \<and> active_preset_at day_schedule now = Inr (slot_preset x)))
       \<and> ((\<forall>x \<in> set day_schedule. now < slot_tod x) \<longrightarrow>
            active_preset_at day_schedule now = Inr None)"
proof -
  let ?P = "\<lambda>x. slot_tod x \<le> now"
  let ?xs = "sorted_slots day_schedule"
  let ?ys = "filter ?P ?xs"
  have srt: "sorted (map slot_tod ?xs)"
    using assms by (rule sorted_slots_by_tod)
  have tw: "takeWhile ?P ?xs = ?ys"
    using srt by (rule takeWhile_eq_filter_sorted)
  have res: "active_preset_at day_schedule now
             = Inr (if ?ys = [] then None else slot_preset (last ?ys))"
    using find_current_slot_takeWhile [OF sorted_slots_valid [OF assms], of now None] tw
    by (simp add: active_preset_at_def)
  have st: "set ?ys = {x \<in> set day_schedule. ?P x}"
    by (auto simp add: sorted_slots_def)
  have sys: "sorted (map slot_tod ?ys)"
    using srt by (rule sorted_filter)
  have a: "(\<exists>x \<in> set day_schedule. slot_tod x \<le> now) \<longrightarrow>
            (\<exists>x \<in> set day_schedule. slot_tod x \<le> now
               \<and> (\<forall>y \<in> set day_schedule. slot_tod y \<le> now \<longrightarrow> slot_tod y \<le> slot_tod x)
               \<and> active_preset_at day_schedule now = Inr (slot_preset x))"
  proof
    assume "\<exists>x \<in> set day_schedule. slot_tod x \<le> now"
    with st have ne: "?ys \<noteq> []" by (metis (mono_tags, lifting) empty_iff empty_set mem_Collect_eq)
    then have "last ?ys \<in> set ?ys" by (rule last_in_set)
    with st have m: "last ?ys \<in> set day_schedule" "slot_tod (last ?ys) \<le> now" by auto
    have "\<forall>y \<in> set day_schedule. slot_tod y \<le> now \<longrightarrow> slot_tod y \<le> slot_tod (last ?ys)"
    proof (intro ballI impI)
      fix y assume "y \<in> set day_schedule" "slot_tod y \<le> now"
      with st have "y \<in> set ?ys" by auto
      with sys show "slot_tod y \<le> slot_tod (last ?ys)" by (rule sorted_map_le_last)
    qed
    with m res ne show "\<exists>x \<in> set day_schedule. slot_tod x \<le> now
               \<and> (\<forall>y \<in> set day_schedule. slot_tod y \<le> now \<longrightarrow> slot_tod y \<le> slot_tod x)
               \<and> active_preset_at day_schedule now = Inr (slot_preset x)"
      by (intro bexI [of _ "last ?ys"]) simp_all
  qed
  have b: "(\<forall>x \<in> set day_schedule. now < slot_tod x) \<longrightarrow>
            active_preset_at day_schedule now = Inr None"
  proof
    assume "\<forall>x \<in> set day_schedule. now < slot_tod x"
    then have "?ys = []" by (auto simp add: filter_empty_conv sorted_slots_def)
    with res show "active_preset_at day_schedule now = Inr None" by simp
  qed
  from a b show ?thesis by blast
qed

theorem active_preset_is_latest_slot_witness:
  "list_all (\<lambda>x. valid_HHMM (get_time x)) shuffled_weekday
   \<and> (\<exists>x \<in> set shuffled_weekday. slot_tod x \<le> mk_time 9 0
        \<and> (\<forall>y \<in> set shuffled_weekday. slot_tod y \<le> mk_time 9 0 \<longrightarrow> slot_tod y \<le> slot_tod x)
        \<and> active_preset_at shuffled_weekday (mk_time 9 0) = Inr (slot_preset x))
   \<and> active_preset_at shuffled_weekday (mk_time 9 0) = Inr (Some PRESET_AWAY)
   \<and> active_preset_at shuffled_weekday (mk_time 5 0) = Inr None"
proof -
  have h: "\<forall>x \<in> set shuffled_weekday. valid_HHMM (get_time x)"
    by (simp add: shuffled_weekday_def get_time_def is_digit_def digit_val_def)
  have e: "\<exists>x \<in> set shuffled_weekday. slot_tod x \<le> mk_time 9 0"
    by (simp add: resolver_defs clock_defs parse_defs)
  have f: "\<forall>x \<in> set shuffled_weekday. mk_time 5 0 < slot_tod x"
    by (simp add: resolver_defs clock_defs parse_defs)
  have 1: "list_all (\<lambda>x. valid_HHMM (get_time x)) shuffled_weekday"
    using h by (simp add: list_all_iff)
  have 2: "\<exists>x \<in> set shuffled_weekday. slot_tod x \<le> mk_time 9 0
        \<and> (\<forall>y \<in> set shuffled_weekday. slot_tod y \<le> mk_time 9 0 \<longrightarrow> slot_tod y \<le> slot_tod x)
        \<and> active_preset_at shuffled_weekday (mk_time 9 0) = Inr (slot_preset x)"
    using active_preset_is_latest_slot [OF h, of "mk_time 9 0"] e by blast
  have 3: "active_preset_at shuffled_weekday (mk_time 9 0) = Inr (Some PRESET_AWAY)"
    by (simp add: resolver_defs const_defs clock_defs parse_defs)
  have 4: "active_preset_at shuffled_weekday (mk_time 5 0) = Inr None"
    using active_preset_is_latest_slot [OF h, of "mk_time 5 0"] f by blast
  from 1 2 3 4 show ?thesis by (intro conjI)
qed


subsection \<open>The next transition\<close>

text \<open>
  C5. Let \<open>ds\<close> be the day's list. Whatever \<^verbatim>\<open>_get_next_schedule\<close> returns is the
  time string of a slot of \<open>ds\<close> and parses to a time of day strictly after \<open>now\<close>:
  it never returns a slot at or before \<open>now\<close>. When every slot of \<open>ds\<close> carries a
  valid \<^verbatim>\<open>HH:MM\<close> time, as the data model requires: if some slot lies strictly after
  \<open>now\<close>, the function returns the time of a slot that lies strictly after \<open>now\<close>
  and has the smallest time of day among those; and if no slot lies strictly after
  \<open>now\<close>, it returns none.
\<close>

theorem next_schedule_is_earliest_later_slot:
  assumes ds: "ds = get_day_schedule scheds now"
  shows "(\<forall>t. get_next_schedule scheds now = Inr (Some t) \<longrightarrow>
            (\<exists>st. strptime_HM t = Inr st \<and> time_of now < st)
            \<and> (\<exists>x \<in> set ds. slot_time x = Some t))
       \<and> ((\<forall>x \<in> set ds. valid_HHMM (get_time x)) \<longrightarrow>
            ((\<exists>x \<in> set ds. time_of now < slot_tod x) \<longrightarrow>
               (\<exists>x \<in> set ds. time_of now < slot_tod x
                  \<and> (\<forall>y \<in> set ds. time_of now < slot_tod y \<longrightarrow> slot_tod x \<le> slot_tod y)
                  \<and> get_next_schedule scheds now = Inr (slot_time x)
                  \<and> slot_time x \<noteq> None))
          \<and> ((\<forall>x \<in> set ds. slot_tod x \<le> time_of now) \<longrightarrow>
               get_next_schedule scheds now = Inr None))"
proof -
  let ?ct = "time_of now"
  let ?xs = "sorted_slots ds"
  let ?Q = "\<lambda>x. ?ct < slot_tod x"
  have gns: "get_next_schedule scheds now = next_schedule_loop ?ct ?xs"
    by (simp add: get_next_schedule_def ds)
  have sx: "set ?xs = set ds" by (simp add: sorted_slots_def)
  have a: "\<forall>t. get_next_schedule scheds now = Inr (Some t) \<longrightarrow>
            (\<exists>st. strptime_HM t = Inr st \<and> time_of now < st)
            \<and> (\<exists>x \<in> set ds. slot_time x = Some t)"
    using next_schedule_loop_Some [of ?ct ?xs] sx unfolding gns by blast
  have b: "(\<exists>x \<in> set ds. ?Q x) \<longrightarrow>
               (\<exists>x \<in> set ds. ?Q x
                  \<and> (\<forall>y \<in> set ds. ?Q y \<longrightarrow> slot_tod x \<le> slot_tod y)
                  \<and> get_next_schedule scheds now = Inr (slot_time x)
                  \<and> slot_time x \<noteq> None)"
    and c: "(\<forall>x \<in> set ds. slot_tod x \<le> ?ct) \<longrightarrow> get_next_schedule scheds now = Inr None"
    if v: "\<forall>x \<in> set ds. valid_HHMM (get_time x)"
  proof -
    have srt: "sorted (map slot_tod ?xs)" using v by (rule sorted_slots_by_tod)
    have nsl: "next_slot_loop ?ct ?xs = Inr (find ?Q ?xs)"
      using sorted_slots_valid [OF v] by (rule next_slot_loop_find)
    show "(\<exists>x \<in> set ds. ?Q x) \<longrightarrow>
               (\<exists>x \<in> set ds. ?Q x
                  \<and> (\<forall>y \<in> set ds. ?Q y \<longrightarrow> slot_tod x \<le> slot_tod y)
                  \<and> get_next_schedule scheds now = Inr (slot_time x)
                  \<and> slot_time x \<noteq> None)"
    proof
      assume "\<exists>x \<in> set ds. ?Q x"
      with sx have "find ?Q ?xs \<noteq> None" by (auto simp add: find_None_iff)
      then obtain x where fx: "find ?Q ?xs = Some x" by auto
      with nsl have n: "next_slot_loop ?ct ?xs = Inr (Some x)" by simp
      from fx have qx: "?Q x" and xin: "x \<in> set ?xs"
        by (auto simp add: find_Some_iff)
      have least: "\<forall>y \<in> set ds. ?Q y \<longrightarrow> slot_tod x \<le> slot_tod y"
        using find_sorted_least [OF srt fx] sx by blast
      have "next_schedule_loop ?ct ?xs = Inr (slot_time x)"
        using next_scans_agree(3) [OF n] by simp
      moreover have "slot_time x \<noteq> None"
        using next_slot_loop_Some [OF n] by simp
      ultimately show "\<exists>x \<in> set ds. ?Q x
                  \<and> (\<forall>y \<in> set ds. ?Q y \<longrightarrow> slot_tod x \<le> slot_tod y)
                  \<and> get_next_schedule scheds now = Inr (slot_time x)
                  \<and> slot_time x \<noteq> None"
        using qx xin sx least gns by (intro bexI [of _ x]) simp_all
    qed
    show "(\<forall>x \<in> set ds. slot_tod x \<le> ?ct) \<longrightarrow> get_next_schedule scheds now = Inr None"
    proof
      assume "\<forall>x \<in> set ds. slot_tod x \<le> ?ct"
      with sx have "find ?Q ?xs = None" by (auto simp add: find_None_iff)
      with nsl have "next_slot_loop ?ct ?xs = Inr None" by simp
      then show "get_next_schedule scheds now = Inr None"
        using next_scans_agree(2) gns by simp
    qed
  qed
  from a b c show ?thesis by blast
qed

theorem next_schedule_is_earliest_later_slot_witness:
  "list_all (\<lambda>x. valid_HHMM (get_time x)) (get_day_schedule DEFAULT_SCHEDULES (at_clock 1 7 30))
   \<and> get_next_schedule DEFAULT_SCHEDULES (at_clock 1 7 30) = Inr (Some ''08:00'')
   \<and> (\<exists>st. strptime_HM ''08:00'' = Inr st \<and> time_of (at_clock 1 7 30) < st)
   \<and> (\<exists>x \<in> set (get_day_schedule DEFAULT_SCHEDULES (at_clock 1 7 30)).
         time_of (at_clock 1 7 30) < slot_tod x
         \<and> (\<forall>y \<in> set (get_day_schedule DEFAULT_SCHEDULES (at_clock 1 7 30)).
               time_of (at_clock 1 7 30) < slot_tod y \<longrightarrow> slot_tod x \<le> slot_tod y)
         \<and> get_next_schedule DEFAULT_SCHEDULES (at_clock 1 7 30) = Inr (slot_time x))
   \<and> get_next_schedule DEFAULT_SCHEDULES (at_clock 1 23 0) = Inr None"
proof -
  let ?ds = "get_day_schedule DEFAULT_SCHEDULES (at_clock 1 7 30)"
  let ?ds' = "get_day_schedule DEFAULT_SCHEDULES (at_clock 1 23 0)"
  have h: "\<forall>x \<in> set ?ds. valid_HHMM (get_time x)"
    by (simp add: resolver_defs example_defs const_defs clock_defs get_time_def is_digit_def
        digit_val_def)
  have h': "\<forall>x \<in> set ?ds'. valid_HHMM (get_time x)"
    by (simp add: resolver_defs example_defs const_defs clock_defs get_time_def is_digit_def
        digit_val_def)
  have r: "get_next_schedule DEFAULT_SCHEDULES (at_clock 1 7 30) = Inr (Some ''08:00'')"
    by (simp add: resolver_defs example_defs const_defs clock_defs parse_defs)
  have e: "\<exists>x \<in> set ?ds. time_of (at_clock 1 7 30) < slot_tod x"
    by (simp add: resolver_defs example_defs const_defs clock_defs parse_defs)
  have f: "\<forall>x \<in> set ?ds'. slot_tod x \<le> time_of (at_clock 1 23 0)"
    by (simp add: resolver_defs example_defs const_defs clock_defs parse_defs)
  note t = next_schedule_is_earliest_later_slot [OF refl, of DEFAULT_SCHEDULES "at_clock 1 7 30"]
  note t' = next_schedule_is_earliest_later_slot [OF refl, of DEFAULT_SCHEDULES "at_clock 1 23 0"]
  have 1: "list_all (\<lambda>x. valid_HHMM (get_time x)) ?ds"
    using h by (simp add: list_all_iff)
  have 2: "\<exists>st. strptime_HM ''08:00'' = Inr st \<and> time_of (at_clock 1 7 30) < st"
    using t r by blast
  have 3: "\<exists>x \<in> set ?ds. time_of (at_clock 1 7 30) < slot_tod x
         \<and> (\<forall>y \<in> set ?ds. time_of (at_clock 1 7 30) < slot_tod y \<longrightarrow> slot_tod x \<le> slot_tod y)
         \<and> get_next_schedule DEFAULT_SCHEDULES (at_clock 1 7 30) = Inr (slot_time x)"
    using t h e by blast
  have 4: "get_next_schedule DEFAULT_SCHEDULES (at_clock 1 23 0) = Inr None"
    using t' h' f by blast
  from 1 r 2 3 4 show ?thesis by (intro conjI)
qed

subsection \<open>The next temperature\<close>

text \<open>
  C9. \<^verbatim>\<open>_get_next_temperature\<close> returns \<^verbatim>\<open>None\<close> whenever \<^verbatim>\<open>_get_next_schedule\<close>
  returns \<^verbatim>\<open>None\<close>; and whenever the slot of the next transition names no preset, or
  a preset that is absent from the Preset Catalog, it returns \<^verbatim>\<open>None\<close> as well,
  never zero or a default temperature.
\<close>

theorem next_temperature_none:
  "(get_next_schedule scheds now = Inr None \<longrightarrow>
      get_next_temperature scheds cat now = Inr PyNone)
   \<and> (\<forall>x. get_next_slot scheds now = Inr (Some x)
          \<and> (slot_preset x = None \<or> (\<exists>n. slot_preset x = Some n \<and> map_of cat n = None)) \<longrightarrow>
        get_next_schedule scheds now = Inr (slot_time x)
        \<and> get_next_temperature scheds cat now = Inr PyNone)"
proof -
  let ?ct = "time_of now"
  let ?xs = "sorted_slots (get_day_schedule scheds now)"
  have a: "get_next_schedule scheds now = Inr None \<longrightarrow>
      get_next_temperature scheds cat now = Inr PyNone"
    using next_schedule_loop_None [of ?ct ?xs] next_scans_agree(2) [of ?ct ?xs cat]
    by (simp add: get_next_schedule_def get_next_temperature_def)
  have b: "\<forall>x. get_next_slot scheds now = Inr (Some x)
          \<and> (slot_preset x = None \<or> (\<exists>n. slot_preset x = Some n \<and> map_of cat n = None)) \<longrightarrow>
        get_next_schedule scheds now = Inr (slot_time x)
        \<and> get_next_temperature scheds cat now = Inr PyNone"
  proof (intro allI impI, elim conjE)
    fix x
    assume n: "get_next_slot scheds now = Inr (Some x)"
      and p: "slot_preset x = None \<or> (\<exists>n. slot_preset x = Some n \<and> map_of cat n = None)"
    from p have "dict_get (preset_entry cat (slot_preset x)) ''temperature'' PyNone = PyNone"
      by (auto simp add: dict_get_def preset_entry_def)
    with n next_scans_agree(3) [of ?ct ?xs x cat]
    show "get_next_schedule scheds now = Inr (slot_time x)
        \<and> get_next_temperature scheds cat now = Inr PyNone"
      by (simp add: get_next_schedule_def get_next_temperature_def get_next_slot_def)
  qed
  from a b show ?thesis by blast
qed

theorem next_temperature_none_witness:
  "get_next_slot DEFAULT_SCHEDULES (at_clock 1 7 30)
     = Inr (Some \<lparr>slot_time = Some ''08:00'', slot_preset = Some PRESET_AWAY\<rparr>)
   \<and> map_of presets_without_away PRESET_AWAY = None
   \<and> get_next_temperature DEFAULT_SCHEDULES presets_without_away (at_clock 1 7 30) = Inr PyNone
   \<and> get_next_schedule DEFAULT_SCHEDULES (at_clock 1 23 0) = Inr None
   \<and> get_next_temperature DEFAULT_SCHEDULES presets_without_away (at_clock 1 23 0) = Inr PyNone"
proof -
  let ?x = "\<lparr>slot_time = Some ''08:00'', slot_preset = Some PRESET_AWAY\<rparr>"
  have n: "get_next_slot DEFAULT_SCHEDULES (at_clock 1 7 30) = Inr (Some ?x)"
    by (simp add: resolver_defs example_defs const_defs clock_defs parse_defs)
  have m: "map_of presets_without_away PRESET_AWAY = None"
    by (simp add: presets_without_away_def const_defs)
  have s: "get_next_schedule DEFAULT_SCHEDULES (at_clock 1 23 0) = Inr None"
    by (simp add: resolver_defs example_defs const_defs clock_defs parse_defs)
  have p: "slot_preset ?x = None
           \<or> (\<exists>k. slot_preset ?x = Some k \<and> map_of presets_without_away k = None)"
    using m by simp
  have 1: "get_next_temperature DEFAULT_SCHEDULES presets_without_away (at_clock 1 7 30)
           = Inr PyNone"
    using next_temperature_none [of DEFAULT_SCHEDULES "at_clock 1 7 30" presets_without_away]
      n p by blast
  have 2: "get_next_temperature DEFAULT_SCHEDULES presets_without_away (at_clock 1 23 0)
           = Inr PyNone"
    using next_temperature_none [of DEFAULT_SCHEDULES "at_clock 1 23 0" presets_without_away]
      s by blast
  from n m 1 s 2 show ?thesis by (intro conjI)
qed

text \<open>
  Scenarios A and B of the specification, on the default configuration: Tuesday 07:30
  and Tuesday 23:00.
\<close>

lemma scenario_A:
  "active_preset_at (get_day_schedule DEFAULT_SCHEDULES (at_clock 1 7 30))
     (time_of (at_clock 1 7 30)) = Inr (Some PRESET_HOME)
   \<and> get_next_schedule DEFAULT_SCHEDULES (at_clock 1 7 30) = Inr (Some ''08:00'')
   \<and> get_next_temperature DEFAULT_SCHEDULES DEFAULT_PRESETS (at_clock 1 7 30)
       = Inr (PyNum 18)"
  by (simp add: resolver_defs example_defs dict_get_def preset_entry_def const_defs
      clock_defs parse_defs)

lemma scenario_B:
  "active_preset_at (get_day_schedule DEFAULT_SCHEDULES (at_clock 1 23 0))
     (time_of (at_clock 1 23 0)) = Inr (Some PRESET_SLEEP)
   \<and> get_next_schedule DEFAULT_SCHEDULES (at_clock 1 23 0) = Inr None"
  by (simp add: resolver_defs example_defs const_defs clock_defs parse_defs)

text \<open>
  Outside the data model's invariant the order of the strings is not the order of the
  times: \<^verbatim>\<open>strptime\<close> reads ``6:00'' as 06:00, and the sort puts it after
  ``17:00''. At 07:00 the scan stops at the 17:00 slot and finds no active preset; at
  05:00 the next slot reported is 17:00.
\<close>

lemma unpadded_time_is_sorted_as_text:
  "strptime_HM ''6:00'' = Inr (mk_time 6 0)
   \<and> active_preset_at unpadded_weekday (mk_time 7 0) = Inr None
   \<and> next_schedule_loop (mk_time 5 0) (sorted_slots unpadded_weekday) = Inr (Some ''17:00'')"
  by (simp add: resolver_defs const_defs clock_defs parse_defs)

end
